theory Spec2Isabelle
  imports Main "HOL-Library.AList" "HOL-Library.Char_ord" "HOL-Library.List_Lexorder"
    "HOL-Library.Multiset"
begin

section \<open>Data model\<close>

text \<open>
  The request dispatcher of \<^verbatim>\<open>python/catzilla/app.py\<close>: the methods
  \<^verbatim>\<open>_handle_request\<close>, \<^verbatim>\<open>_get_clean_error_response\<close>,
  \<^verbatim>\<open>_handle_exception\<close> and the three handler setters of class
  \<^verbatim>\<open>Catzilla\<close>. A Python identifier with a leading underscore loses it here.

  The modules \<^verbatim>\<open>types.py\<close> (Request, Response, JSONResponse, HTMLResponse) and
  \<^verbatim>\<open>c_router.py\<close> (CAcceleratedRouter) are not among the sources. The
  response classes are modelled from the specification, the router's \<^verbatim>\<open>match\<close>
  is a field of the application, so every result below holds for any router.
\<close>

text \<open>A Response object: the four keyword arguments the dispatcher passes to its constructor.
  The headers dictionary is an association list in insertion order.\<close>

record response =
  status_code :: int
  content_type :: string
  body :: string
  headers :: "(string \<times> string) list"

text \<open>The values a JSON response serialises (a Python dict of a handler, or the error data of
  \<^verbatim>\<open>_get_clean_error_response\<close>).\<close>

datatype json =
    JNull
  | JBool bool
  | JInt int
  | JStr string
  | JList "json list"
  | JDict "(string \<times> json) list"

text \<open>What a route handler can return: the dispatcher tells the cases apart with
  \<^verbatim>\<open>isinstance\<close>. \<open>POther n\<close> is an object of any other class, named \<open>n\<close>.\<close>

datatype pyval =
    PResponse response
  | PDict "(string \<times> json) list"
  | PStr string
  | PBytes string
  | PNone
  | POther string

text \<open>
  An instance of \<^verbatim>\<open>Exception\<close>: the names of the classes in the method resolution order
  of its class (its own class first, then the ancestors: the kind chain), and the text
  \<^verbatim>\<open>str(e)\<close>. Objects that are only \<^verbatim>\<open>BaseException\<close>s are not caught by the
  dispatcher's \<^verbatim>\<open>except Exception\<close> and are not modelled.
\<close>

record exn =
  exc_mro :: "string list"
  exc_msg :: string

text \<open>Modelled from the spec: the request capsule of the native layer is absent from the
  sources; all the dispatcher reads from it (through \<^verbatim>\<open>request.content_type\<close>) is the
  content type of the request, \<open>None\<close> when the request has none.\<close>

datatype request_capsule = Capsule (capsule_content_type: "string option")

text \<open>The Request object, with the fields \<^verbatim>\<open>_handle_request\<close> sets (the fields
  \<^verbatim>\<open>method\<close> and \<^verbatim>\<open>body\<close> are \<open>request_method\<close> and \<open>request_body\<close> here). The
  client is the handle a response is sent to.\<close>

record request =
  request_method :: string
  path :: string
  request_body :: string
  client :: nat
  request_capsule :: request_capsule
  query_params :: "(string \<times> string) list"
  path_params :: "(string \<times> string) list"

text \<open>Modelled from the spec: the property \<^verbatim>\<open>Request.content_type\<close> of the absent
  \<^verbatim>\<open>types.py\<close>, the content type the request carries.\<close>

definition request_content_type :: "request \<Rightarrow> string option" where
  "request_content_type req = capsule_content_type (request_capsule req)"

text \<open>A route as the dispatcher uses it: its handler, which returns a value or raises.\<close>

datatype route = Route (handler: "request \<Rightarrow> exn + pyval")

type_synonym match_result = "route option \<times> (string \<times> string) list \<times> string list"

text \<open>
  The application object: the production flag, the router (its \<^verbatim>\<open>match\<close> method, which
  returns the route or \<open>None\<close>, the path parameters and the allowed methods), the dictionary of
  per-type exception handlers in insertion order, and the two optional handlers.

  An exception handler or the internal-error handler returns any value or raises:
  \<^verbatim>\<open>_handle_exception\<close> hands the value back unchecked. The result of the not-found
  handler is what the \<^verbatim>\<open>try\<close> block around its call and the send of its value yields:
  the Response that was sent, or the exception raised (by the handler, or by the attribute
  lookup of \<^verbatim>\<open>send\<close> on a value that is not a Response, which the same
  \<^verbatim>\<open>except\<close> clause catches).
\<close>

record app =
  production :: bool
  router_match :: "string \<Rightarrow> string \<Rightarrow> match_result"
  exception_handlers :: "(string \<times> (request \<Rightarrow> exn \<Rightarrow> exn + pyval)) list"
  not_found_handler :: "(request \<Rightarrow> exn + response) option"
  internal_error_handler :: "(request \<Rightarrow> exn \<Rightarrow> exn + pyval) option"

text \<open>The effects of the dispatcher, in order: a call of a user-supplied handler,
  \<^verbatim>\<open>response.send(client)\<close>, and an exception that no clause catches and that leaves
  \<^verbatim>\<open>_handle_request\<close> (it ends the run).\<close>

datatype call = RouteHandler | ExceptionHandler string | InternalErrorHandler | NotFoundHandler

datatype event = Call call | Send nat response | Uncaught exn

fun sends :: "event list \<Rightarrow> (nat \<times> response) list" where
  "sends [] = []"
| "sends (Call c # es) = sends es"
| "sends (Send c r # es) = (c, r) # sends es"
| "sends (Uncaught e # es) = sends es"

fun calls :: "event list \<Rightarrow> call list" where
  "calls [] = []"
| "calls (Call c # es) = c # calls es"
| "calls (Send c r # es) = calls es"
| "calls (Uncaught e # es) = calls es"

fun uncaught :: "event list \<Rightarrow> exn list" where
  "uncaught [] = []"
| "uncaught (Call c # es) = uncaught es"
| "uncaught (Send c r # es) = uncaught es"
| "uncaught (Uncaught e # es) = e # uncaught es"

text \<open>What a client sees of the responses sent: the status codes, and the value of one
  header (\<open>None\<close> when the response does not carry it).\<close>

definition sent_status_codes :: "event list \<Rightarrow> int list" where
  "sent_status_codes es = map (\<lambda>cr. status_code (snd cr)) (sends es)"

definition sent_header :: "string \<Rightarrow> event list \<Rightarrow> string option list" where
  "sent_header name es = map (\<lambda>cr. map_of (headers (snd cr)) name) (sends es)"

section \<open>Strings\<close>

text \<open>\<^verbatim>\<open>sep.join(xs)\<close>\<close>

fun join :: "string \<Rightarrow> string list \<Rightarrow> string" where
  "join sep [] = []"
| "join sep [x] = x"
| "join sep (x # y # ys) = x @ sep @ join sep (y # ys)"

text \<open>\<^verbatim>\<open>s.split(c, 1)\<close> for a separator of one character: at most one split, at the first
  occurrence.\<close>

definition split_once :: "char \<Rightarrow> string \<Rightarrow> string list" where
  "split_once c s =
     (if c \<in> set s then [takeWhile (\<lambda>x. x \<noteq> c) s, tl (dropWhile (\<lambda>x. x \<noteq> c) s)] else [s])"

text \<open>The truth value of an optional string: \<open>None\<close> and the empty string are false.\<close>

fun truthy :: "string option \<Rightarrow> bool" where
  "truthy None = False"
| "truthy (Some s) = (s \<noteq> [])"

text \<open>\<^verbatim>\<open>type(v).__name__\<close>, and \<^verbatim>\<open>isinstance(v, Response)\<close>.\<close>

fun type_name :: "pyval \<Rightarrow> string" where
  "type_name (PResponse r) = ''Response''"
| "type_name (PDict d) = ''dict''"
| "type_name (PStr s) = ''str''"
| "type_name (PBytes b) = ''bytes''"
| "type_name PNone = ''NoneType''"
| "type_name (POther n) = n"

fun is_response :: "pyval \<Rightarrow> bool" where
  "is_response (PResponse r) = True"
| "is_response v = False"

text \<open>\<^verbatim>\<open>str(type(v))\<close> in the message of the TypeError.\<close>

definition class_repr :: "string \<Rightarrow> string" where
  "class_repr n = ''<class '' @ [CHR 0x27] @ n @ [CHR 0x27] @ ''>''"

fun type_repr :: "pyval \<Rightarrow> string" where
  "type_repr (PResponse r) = class_repr ''catzilla.types.Response''"
| "type_repr (PDict d) = class_repr ''dict''"
| "type_repr (PStr s) = class_repr ''str''"
| "type_repr (PBytes b) = class_repr ''bytes''"
| "type_repr PNone = class_repr ''NoneType''"
| "type_repr (POther n) = class_repr n"

section \<open>Response classes\<close>

fun show_nat :: "nat \<Rightarrow> string" where
  "show_nat n =
     (if n < 10 then [char_of (48 + n)] else show_nat (n div 10) @ [char_of (48 + n mod 10)])"

declare show_nat.simps [simp del]

definition show_int :: "int \<Rightarrow> string" where
  "show_int i = (if i < 0 then CHR ''-'' # show_nat (nat (- i)) else show_nat (nat i))"

fun json_escape :: "string \<Rightarrow> string" where
  "json_escape [] = []"
| "json_escape (c # cs) =
     (if c = CHR 0x22 \<or> c = CHR 0x5C then CHR 0x5C # c # json_escape cs else c # json_escape cs)"

definition json_quote :: "string \<Rightarrow> string" where
  "json_quote s = CHR 0x22 # json_escape s @ [CHR 0x22]"

text \<open>Modelled from the spec: the serialisation of a JSON response's object (the absent
  \<^verbatim>\<open>types.py\<close>), in the layout of the specification's
  \<^verbatim>\<open>{"error": "Internal server error"}\<close>.\<close>

fun json_dumps :: "json \<Rightarrow> string" where
  "json_dumps JNull = ''null''"
| "json_dumps (JBool b) = (if b then ''true'' else ''false'')"
| "json_dumps (JInt i) = show_int i"
| "json_dumps (JStr s) = json_quote s"
| "json_dumps (JList xs) = ''['' @ join '', '' (map json_dumps xs) @ '']''"
| "json_dumps (JDict kvs) =
     ''{'' @ join '', '' (map (\<lambda>kv. json_quote (fst kv) @ '': '' @ json_dumps (snd kv)) kvs) @ ''}''"

text \<open>Modelled from the spec: \<^verbatim>\<open>JSONResponse(data, status_code)\<close> of the absent
  \<^verbatim>\<open>types.py\<close>: a Response with content type \<^verbatim>\<open>application/json\<close>, the serialised
  object as body, and the headers it was given, here none.\<close>

definition JSONResponse :: "(string \<times> json) list \<Rightarrow> int \<Rightarrow> response" where
  "JSONResponse data status =
     \<lparr>status_code = status, content_type = ''application/json'',
      body = json_dumps (JDict data), headers = []\<rparr>"

text \<open>Modelled from the spec: \<^verbatim>\<open>HTMLResponse(text)\<close> of the absent \<^verbatim>\<open>types.py\<close>:
  status 200, content type \<^verbatim>\<open>text/html; charset=utf-8\<close>.\<close>

definition HTMLResponse :: "string \<Rightarrow> response" where
  "HTMLResponse text =
     \<lparr>status_code = 200, content_type = ''text/html; charset=utf-8'', body = text, headers = []\<rparr>"

section \<open>Registration\<close>

text \<open>\<^verbatim>\<open>self._exception_handlers[exception_type] = handler\<close>: a key that is already in the
  dictionary keeps its place and gets the new handler, a new key goes to the end.\<close>

definition set_exception_handler ::
  "app \<Rightarrow> string \<Rightarrow> (request \<Rightarrow> exn \<Rightarrow> exn + pyval) \<Rightarrow> app" where
  "set_exception_handler self exception_type h =
     self\<lparr>exception_handlers := AList.update exception_type h (exception_handlers self)\<rparr>"

definition set_not_found_handler :: "app \<Rightarrow> (request \<Rightarrow> exn + response) \<Rightarrow> app" where
  "set_not_found_handler self h = self\<lparr>not_found_handler := Some h\<rparr>"

definition set_internal_error_handler ::
  "app \<Rightarrow> (request \<Rightarrow> exn \<Rightarrow> exn + pyval) \<Rightarrow> app" where
  "set_internal_error_handler self h = self\<lparr>internal_error_handler := Some h\<rparr>"

section \<open>The error resolver\<close>

text \<open>\<^verbatim>\<open>_get_clean_error_response(status_code, message, detail=None)\<close>\<close>

definition get_clean_error_response :: "app \<Rightarrow> int \<Rightarrow> string \<Rightarrow> string option \<Rightarrow> response" where
  "get_clean_error_response self status message detail =
     (let error_data = [(''error'', JStr message)];
          error_data = (if truthy detail \<and> \<not> production self
                        then AList.update ''detail'' (JStr (the detail)) error_data
                        else error_data)
      in JSONResponse error_data status)"

text \<open>\<^verbatim>\<open>isinstance(exception, exc_type)\<close>: the class is in the kind chain of the exception.\<close>

definition isinstance :: "exn \<Rightarrow> string \<Rightarrow> bool" where
  "isinstance e exc_type = (exc_type \<in> set (exc_mro e))"

text \<open>The three fallbacks of \<^verbatim>\<open>_handle_exception\<close> are the same code up to the prefix of
  the debug body: the clean response in production, a plain text response with the
  \<^verbatim>\<open>X-Error-Detail\<close> header otherwise.\<close>

definition default_error_response :: "app \<Rightarrow> string \<Rightarrow> string \<Rightarrow> response" where
  "default_error_response self prefix msg =
     (if production self then get_clean_error_response self 500 ''Internal server error'' None
      else \<lparr>status_code = 500, content_type = ''text/plain'', body = prefix @ msg,
            headers = [(''X-Error-Detail'', msg)]\<rparr>)"

text \<open>The loop of \<^verbatim>\<open>_handle_exception\<close> over \<^verbatim>\<open>self._exception_handlers.items()\<close>:
  \<open>Some\<close> when the loop returns from the function (the calls made and the value returned:
  what the handler returned, whatever it is, or the fallback response), \<open>None\<close> when it
  ends without a return.\<close>

fun exception_handler_loop ::
  "app \<Rightarrow> (string \<times> (request \<Rightarrow> exn \<Rightarrow> exn + pyval)) list \<Rightarrow> request \<Rightarrow> exn
   \<Rightarrow> (call list \<times> pyval) option" where
  "exception_handler_loop self [] req exception = None"
| "exception_handler_loop self ((exc_type, h) # rest) req exception =
     (if isinstance exception exc_type then
        Some ([ExceptionHandler exc_type],
              case h req exception of
                Inr v \<Rightarrow> v
              | Inl handler_error \<Rightarrow>
                  PResponse (default_error_response self ''Exception handler failed: ''
                               (exc_msg handler_error)))
      else exception_handler_loop self rest req exception)"

text \<open>\<^verbatim>\<open>_handle_exception(request, exception)\<close>: the handlers it calls, and the value it
  returns.\<close>

definition handle_exception :: "app \<Rightarrow> request \<Rightarrow> exn \<Rightarrow> call list \<times> pyval" where
  "handle_exception self req exception =
     (case exception_handler_loop self (exception_handlers self) req exception of
        Some res \<Rightarrow> res
      | None \<Rightarrow>
          (case internal_error_handler self of
             Some ih \<Rightarrow>
               ([InternalErrorHandler],
                case ih req exception of
                  Inr v \<Rightarrow> v
                | Inl handler_error \<Rightarrow>
                    PResponse (default_error_response self ''Internal error handler failed: ''
                                 (exc_msg handler_error)))
           | None \<Rightarrow>
               ([], PResponse (default_error_response self ''Internal Server Error: ''
                                 (exc_msg exception)))))"


section \<open>The dispatcher\<close>

definition allowed_content_types :: "string list" where
  "allowed_content_types =
     [''application/json'', ''application/x-www-form-urlencoded'', ''text/plain'',
      ''multipart/form-data'']"

text \<open>The \<^verbatim>\<open>TypeError\<close> the dispatcher raises for a return value it does not support.\<close>

definition unsupported_type_error :: "pyval \<Rightarrow> exn" where
  "unsupported_type_error v =
     \<lparr>exc_mro = [''TypeError'', ''Exception'', ''BaseException'', ''object''],
      exc_msg = ''Handler returned unsupported type '' @ type_repr v
                @ ''. Must return Response, dict, or str.''\<rparr>"

text \<open>The normalisation of the handler's return value: the \<^verbatim>\<open>isinstance\<close> chain of
  \<^verbatim>\<open>_handle_request\<close>.\<close>

fun normalize :: "pyval \<Rightarrow> exn + response" where
  "normalize (PResponse r) = Inr r"
| "normalize (PDict d) = Inr (JSONResponse d 200)"
| "normalize (PStr s) = Inr (HTMLResponse s)"
| "normalize v = Inl (unsupported_type_error v)"

text \<open>The \<^verbatim>\<open>AttributeError\<close> of \<^verbatim>\<open>v.send\<close> for a value that is not a Response.\<close>

definition no_send_error :: "pyval \<Rightarrow> exn" where
  "no_send_error v =
     \<lparr>exc_mro = [''AttributeError'', ''Exception'', ''BaseException'', ''object''],
      exc_msg = [CHR 0x27] @ type_name v @ [CHR 0x27] @ '' object has no attribute ''
                @ [CHR 0x27] @ ''send'' @ [CHR 0x27]\<rparr>"

text \<open>\<^verbatim>\<open>err_resp.send(client)\<close> on the value \<^verbatim>\<open>_handle_exception\<close> returned: a
  Response is sent; any other value has no \<^verbatim>\<open>send\<close>, and the statement stands outside
  every \<^verbatim>\<open>try\<close>, so the \<^verbatim>\<open>AttributeError\<close> leaves \<^verbatim>\<open>_handle_request\<close>.\<close>

fun send_value :: "nat \<Rightarrow> pyval \<Rightarrow> event list" where
  "send_value cl (PResponse r) = [Send cl r]"
| "send_value cl v = [Uncaught (no_send_error v)]"

text \<open>The \<^verbatim>\<open>except Exception as e\<close> clause of the matched branch.\<close>

definition on_exception :: "app \<Rightarrow> request \<Rightarrow> exn \<Rightarrow> event list" where
  "on_exception self req e =
     (case handle_exception self req e of
        (cs, err_resp) \<Rightarrow> map Call cs @ send_value (client req) err_resp)"

text \<open>The branch \<^verbatim>\<open>if route:\<close> of \<^verbatim>\<open>_handle_request\<close>: the content type gate, the
  handler, the normalisation, the send.\<close>

definition run_route :: "app \<Rightarrow> route \<Rightarrow> request \<Rightarrow> event list" where
  "run_route self rt req =
     (let ct = request_content_type req in
      if truthy ct \<and> the ct \<notin> set allowed_content_types then
        [Send (client req)
           \<lparr>status_code = 415, content_type = ''text/plain'',
            body = ''Unsupported Media Type: '' @ the ct,
            headers = [(''X-Error-Detail'', ''Content-Type '' @ the ct @ '' is not supported'')]\<rparr>]
      else
        Call RouteHandler #
          (case handler rt req of
             Inl e \<Rightarrow> on_exception self req e
           | Inr v \<Rightarrow>
               (case normalize v of
                  Inl e \<Rightarrow> on_exception self req e
                | Inr resp \<Rightarrow> [Send (client req) resp])))"

text \<open>The branch \<^verbatim>\<open>if allowed_methods:\<close>: the path exists, the method is not allowed.\<close>

definition method_not_allowed :: "app \<Rightarrow> request \<Rightarrow> string list \<Rightarrow> event list" where
  "method_not_allowed self req allowed_methods =
     (let not_allowed =
            (if production self then
               get_clean_error_response self 405 ''Method not allowed''
                 (Some (''Allowed methods: '' @ join '', '' (sort allowed_methods)))
             else
               \<lparr>status_code = 405, content_type = ''text/plain'',
                body = ''Method Not Allowed: '' @ request_method req @ '' '' @ path req,
                headers = [(''Allow'', join '', '' (sort allowed_methods)),
                           (''X-Error-Path'', path req)]\<rparr>)
      in [Send (client req) not_allowed])"

text \<open>The last branch: no route and no allowed method.\<close>

definition not_found :: "app \<Rightarrow> request \<Rightarrow> event list" where
  "not_found self req =
     (case not_found_handler self of
        Some h \<Rightarrow>
          Call NotFoundHandler #
            (case h req of
               Inr not_found_resp \<Rightarrow> [Send (client req) not_found_resp]
             | Inl handler_error \<Rightarrow>
                 [Send (client req)
                    (if production self then get_clean_error_response self 404 ''Not found'' None
                     else \<lparr>status_code = 500, content_type = ''text/plain'',
                           body = ''404 handler failed: '' @ exc_msg handler_error,
                           headers = [(''X-Error-Detail'', exc_msg handler_error)]\<rparr>)])
      | None \<Rightarrow>
          [Send (client req)
             (if production self then get_clean_error_response self 404 ''Not found'' None
              else \<lparr>status_code = 404, content_type = ''text/plain'',
                    body = ''Not Found: '' @ request_method req @ '' '' @ path req,
                    headers = [(''X-Error-Path'', path req)]\<rparr>)])"

text \<open>The first statements of \<^verbatim>\<open>_handle_request\<close>: the base path, the Request object, the
  match, the path parameters. The result is the request, the route and the allowed methods.\<close>

definition base_path :: "string \<Rightarrow> string" where
  "base_path p = (if CHR ''?'' \<in> set p then hd (split_once CHR ''?'' p) else p)"

definition resolve ::
  "app \<Rightarrow> nat \<Rightarrow> string \<Rightarrow> string \<Rightarrow> string \<Rightarrow> request_capsule
   \<Rightarrow> request \<times> route option \<times> string list" where
  "resolve self cl m p b capsule =
     (let request = \<lparr>request_method = m, path = p, request_body = b, client = cl,
                     request_capsule = capsule, query_params = [], path_params = []\<rparr>
      in case router_match self m (base_path p) of
           (rt, params, allowed_methods) \<Rightarrow> (request\<lparr>path_params := params\<rparr>, rt, allowed_methods))"

text \<open>\<^verbatim>\<open>_handle_request(client, method, path, body, request_capsule)\<close>: the events it
  causes, in order.\<close>

definition handle_request ::
  "app \<Rightarrow> nat \<Rightarrow> string \<Rightarrow> string \<Rightarrow> string \<Rightarrow> request_capsule \<Rightarrow> event list" where
  "handle_request self cl m p b capsule =
     (case resolve self cl m p b capsule of
        (req, rt, allowed_methods) \<Rightarrow>
          (case rt of
             Some r \<Rightarrow> run_route self r req
           | None \<Rightarrow>
               if allowed_methods \<noteq> [] then method_not_allowed self req allowed_methods
               else not_found self req))"

section \<open>The specification's lookup\<close>

text \<open>
  The lookup by kind as the specification words it, for comparison with the loop of
  \<^verbatim>\<open>_handle_exception\<close>: exact match first, then walk up the kind hierarchy. The kind
  chain is walked from the exception's own class upwards, and the first kind that has a
  registered handler selects it.
\<close>

fun spec_lookup_by_kind :: "(string \<times> 'h) list \<Rightarrow> string list \<Rightarrow> (string \<times> 'h) option" where
  "spec_lookup_by_kind hs [] = None"
| "spec_lookup_by_kind hs (k # ks) =
     (case map_of hs k of Some h \<Rightarrow> Some (k, h) | None \<Rightarrow> spec_lookup_by_kind hs ks)"

section \<open>A small application\<close>

text \<open>
  Concrete values on which the results below are evaluated: the \<^verbatim>\<open>ValueError\<close> of the
  example's \<^verbatim>\<open>/error\<close> endpoint, a failing handler's error, and an application whose
  router knows \<^verbatim>\<open>GET\<close> and \<^verbatim>\<open>POST\<close> on \<^verbatim>\<open>/items\<close> and nothing else.
\<close>

definition value_error :: exn where
  "value_error =
     \<lparr>exc_mro = [''ValueError'', ''Exception'', ''BaseException'', ''object''],
      exc_msg = ''This is a test error''\<rparr>"

definition runtime_error :: exn where
  "runtime_error =
     \<lparr>exc_mro = [''RuntimeError'', ''Exception'', ''BaseException'', ''object''],
      exc_msg = ''handler crashed''\<rparr>"

definition plain_response :: "int \<Rightarrow> string \<Rightarrow> response" where
  "plain_response status text =
     \<lparr>status_code = status, content_type = ''text/plain'', body = text, headers = []\<rparr>"

definition example_router :: "route \<Rightarrow> string \<Rightarrow> string \<Rightarrow> match_result" where
  "example_router rt m p =
     (if p = ''/items'' then
        (if m = ''GET'' \<or> m = ''POST'' then (Some rt, [], []) else (None, [], [''POST'', ''GET'']))
      else (None, [], []))"

definition example_app :: "bool \<Rightarrow> route \<Rightarrow> app" where
  "example_app flag rt =
     \<lparr>production = flag, router_match = example_router rt, exception_handlers = [],
      not_found_handler = None, internal_error_handler = None\<rparr>"

text \<open>Route handlers: one that answers, one that returns nothing, one that raises.\<close>

definition ok_route :: route where
  "ok_route = Route (\<lambda>req. Inr (PStr ''<h1>items</h1>''))"

definition none_route :: route where
  "none_route = Route (\<lambda>req. Inr PNone)"

definition error_route :: route where
  "error_route = Route (\<lambda>req. Inl value_error)"

text \<open>Error handlers: one for any exception, one for \<^verbatim>\<open>ValueError\<close>, one that raises,
  a custom internal-error handler; then two not-found handlers.\<close>

definition generic_handler :: "request \<Rightarrow> exn \<Rightarrow> exn + pyval" where
  "generic_handler req e = Inr (PResponse (plain_response 500 ''something went wrong''))"

definition value_error_handler :: "request \<Rightarrow> exn \<Rightarrow> exn + pyval" where
  "value_error_handler req e =
     Inr (PResponse (plain_response 400 (''Invalid value: '' @ exc_msg e)))"

definition failing_handler :: "request \<Rightarrow> exn \<Rightarrow> exn + pyval" where
  "failing_handler req e = Inl runtime_error"

definition custom_500 :: "request \<Rightarrow> exn \<Rightarrow> exn + pyval" where
  "custom_500 req e = Inr (PResponse (plain_response 503 ''come back later''))"

text \<open>An exception handler that returns a dictionary, as a route handler may, and not a
  Response.\<close>

definition dict_handler :: "request \<Rightarrow> exn \<Rightarrow> exn + pyval" where
  "dict_handler req e = Inr (PDict [(''error'', JStr ''Invalid value'')])"

definition custom_404 :: "request \<Rightarrow> exn + response" where
  "custom_404 req = Inr (plain_response 404 (''nothing at '' @ path req))"

definition failing_404 :: "request \<Rightarrow> exn + response" where
  "failing_404 req = Inl runtime_error"

text \<open>The same two per-type handlers registered in the two possible orders, and an
  application whose \<^verbatim>\<open>ValueError\<close> handler raises while a custom internal-error
  handler is set.\<close>

definition generic_first_app :: app where
  "generic_first_app =
     set_exception_handler
       (set_exception_handler (example_app False error_route) ''Exception'' generic_handler)
       ''ValueError'' value_error_handler"

definition specific_first_app :: app where
  "specific_first_app =
     set_exception_handler
       (set_exception_handler (example_app False error_route) ''ValueError'' value_error_handler)
       ''Exception'' generic_handler"

definition failing_handler_app :: "bool \<Rightarrow> app" where
  "failing_handler_app flag =
     set_internal_error_handler
       (set_exception_handler (example_app flag error_route) ''ValueError'' failing_handler)
       custom_500"

definition dict_handler_app :: "bool \<Rightarrow> app" where
  "dict_handler_app flag =
     set_exception_handler (example_app flag error_route) ''ValueError'' dict_handler"

definition example_request :: request where
  "example_request =
     \<lparr>request_method = ''GET'', path = ''/items?page=2'', request_body = [], client = 7,
      request_capsule = Capsule None, query_params = [], path_params = []\<rparr>"

section \<open>Auxiliary facts\<close>

lemmas app_defs = example_app_def example_router_def set_exception_handler_def
  set_internal_error_handler_def set_not_found_handler_def generic_first_app_def
  specific_first_app_def failing_handler_app_def dict_handler_app_def

lemmas handler_defs = generic_handler_def value_error_handler_def failing_handler_def
  custom_500_def custom_404_def failing_404_def dict_handler_def plain_response_def
  value_error_def runtime_error_def error_route_def ok_route_def none_route_def

subsection \<open>Events\<close>

lemma sends_append: "sends (xs @ ys) = sends xs @ sends ys"
  by (induction xs rule: sends.induct) simp_all

lemma sends_map_Call: "sends (map Call cs) = []"
  by (induction cs) simp_all

lemma calls_append: "calls (xs @ ys) = calls xs @ calls ys"
  by (induction xs rule: calls.induct) simp_all

lemma calls_map_Call: "calls (map Call cs) = cs"
  by (induction cs) simp_all



lemma sends_send_value: "map fst (sends (send_value cl v)) = (if is_response v then [cl] else [])"
  by (cases v) simp_all

lemma uncaught_send_value:
  "uncaught (send_value cl v) = (if is_response v then [] else [no_send_error v])"
  by (cases v) simp_all

subsection \<open>The base path and the match\<close>

lemma takeWhile_absent: "c \<notin> set p \<Longrightarrow> takeWhile (\<lambda>x. x \<noteq> c) p = p"
  by (induction p) auto

lemma takeWhile_first: "c \<notin> set p \<Longrightarrow> takeWhile (\<lambda>x. x \<noteq> c) (p @ c # q) = p"
  by (induction p) auto

lemma base_path_takeWhile: "base_path p = takeWhile (\<lambda>c. c \<noteq> CHR ''?'') p"
  by (simp add: base_path_def split_once_def takeWhile_absent)

lemma base_path_append:
  assumes "CHR ''?'' \<notin> set base" and "q = [] \<or> hd q = CHR ''?''"
  shows "base_path (base @ q) = base"
proof (cases q)
  case Nil
  with assms show ?thesis by (simp add: base_path_takeWhile takeWhile_absent)
next
  case (Cons c cs)
  with assms have "c = CHR ''?''" by simp
  with Cons assms show ?thesis
    by (simp add: base_path_takeWhile takeWhile_first)
qed

lemma resolve_eq:
  "router_match self m (base_path p) = (rt, params, allowed) \<Longrightarrow>
   resolve self cl m p b capsule =
     (\<lparr>request_method = m, path = p, request_body = b, client = cl, request_capsule = capsule,
       query_params = [], path_params = params\<rparr>, rt, allowed)"
  by (simp add: resolve_def)

lemma client_resolve: "client (fst (resolve self cl m p b capsule)) = cl"
  by (simp add: resolve_def split: prod.splits)

lemma content_type_resolve:
  "request_content_type (fst (resolve self cl m p b capsule)) = capsule_content_type capsule"
  by (simp add: resolve_def request_content_type_def split: prod.splits)

lemma handle_request_matched:
  "router_match self m (base_path p) = (Some rt, params, allowed) \<Longrightarrow>
   handle_request self cl m p b capsule = run_route self rt (fst (resolve self cl m p b capsule))"
  by (simp add: handle_request_def resolve_def)

lemma handle_request_not_allowed:
  "router_match self m (base_path p) = (None, params, allowed) \<Longrightarrow> allowed \<noteq> [] \<Longrightarrow>
   handle_request self cl m p b capsule
     = method_not_allowed self (fst (resolve self cl m p b capsule)) allowed"
  by (simp add: handle_request_def resolve_def)

lemma handle_request_not_found:
  "router_match self m (base_path p) = (None, params, []) \<Longrightarrow>
   handle_request self cl m p b capsule = not_found self (fst (resolve self cl m p b capsule))"
  by (simp add: handle_request_def resolve_def)

subsection \<open>The error resolver\<close>

lemma update_new_key: "k \<notin> fst ` set al \<Longrightarrow> AList.update k v al = al @ [(k, v)]"
  by (induction al) auto

lemma register_new_kind:
  "exc_type \<notin> fst ` set (exception_handlers self) \<Longrightarrow>
   exception_handlers (set_exception_handler self exc_type h)
     = exception_handlers self @ [(exc_type, h)]"
  by (simp add: set_exception_handler_def update_new_key)

lemma exception_handler_loop_first:
  assumes "i < length hs"
    and "isinstance e (fst (hs ! i))"
    and "\<forall>j<i. \<not> isinstance e (fst (hs ! j))"
  shows "exception_handler_loop self hs req e =
           Some ([ExceptionHandler (fst (hs ! i))],
                 case snd (hs ! i) req e of
                   Inr v \<Rightarrow> v
                 | Inl handler_error \<Rightarrow>
                     PResponse (default_error_response self ''Exception handler failed: ''
                                  (exc_msg handler_error)))"
  using assms
proof (induction hs arbitrary: i)
  case Nil
  then show ?case by simp
next
  case (Cons kv hs)
  obtain t h where kv: "kv = (t, h)" by (cases kv)
  show ?case
  proof (cases i)
    case 0
    with Cons.prems kv show ?thesis by simp
  next
    case (Suc k)
    from Cons.prems Suc have nt: "\<not> isinstance e t"
      using kv by fastforce
    from Cons.prems Suc have k: "k < length hs" "isinstance e (fst (hs ! k))"
      by simp_all
    from Cons.prems Suc have "\<forall>j<k. \<not> isinstance e (fst (hs ! j))"
      by fastforce
    with k have "exception_handler_loop self hs req e =
           Some ([ExceptionHandler (fst (hs ! k))],
                 case snd (hs ! k) req e of
                   Inr v \<Rightarrow> v
                 | Inl handler_error \<Rightarrow>
                     PResponse (default_error_response self ''Exception handler failed: ''
                                  (exc_msg handler_error)))"
      by (rule Cons.IH)
    with nt kv Suc show ?thesis by simp
  qed
qed

lemma exception_handler_loop_none:
  "list_all (\<lambda>kv. \<not> isinstance e (fst kv)) hs \<Longrightarrow> exception_handler_loop self hs req e = None"
  by (induction hs) auto

lemma handle_exception_unmatched:
  "list_all (\<lambda>kv. \<not> isinstance e (fst kv)) (exception_handlers self) \<Longrightarrow>
   internal_error_handler self = Some ih \<Longrightarrow>
   fst (handle_exception self req e) = [InternalErrorHandler]"
  by (simp add: handle_exception_def exception_handler_loop_none)

lemma handle_exception_unregistered:
  "exception_handlers self = [] \<Longrightarrow> internal_error_handler self = None \<Longrightarrow>
   handle_exception self req e
     = ([], PResponse (default_error_response self ''Internal Server Error: '' (exc_msg e)))"
  by (simp add: handle_exception_def)

lemma status_code_clean: "status_code (get_clean_error_response self st msg d) = st"
  by (simp add: get_clean_error_response_def JSONResponse_def Let_def)

lemma headers_clean: "headers (get_clean_error_response self st msg d) = []"
  by (simp add: get_clean_error_response_def JSONResponse_def Let_def)

lemma clean_error_in_production:
  "production self \<Longrightarrow>
   get_clean_error_response self status message detail = JSONResponse [(''error'', JStr message)] status"
  by (simp add: get_clean_error_response_def)

lemma status_code_default_error_response:
  "status_code (default_error_response self prefix msg) = 500"
  by (simp add: default_error_response_def status_code_clean)

subsection \<open>The branches of the dispatcher\<close>















lemma resolve_capsule:
  "fst (resolve self cl m p b capsule')
     = (fst (resolve self cl m p b capsule))\<lparr>request_capsule := capsule'\<rparr>"
  by (simp add: resolve_def split: prod.splits)

lemma method_not_allowed_capsule:
  "method_not_allowed self (req\<lparr>request_capsule := c\<rparr>) allowed
     = method_not_allowed self req allowed"
  by (simp add: method_not_allowed_def)

lemma not_found_default_capsule:
  "not_found_handler self = None \<Longrightarrow>
   not_found self (req\<lparr>request_capsule := c\<rparr>) = not_found self req"
  by (simp add: not_found_def)

lemma sends_method_not_allowed:
  "map fst (sends (method_not_allowed self req allowed)) = [client req]"
  by (simp add: method_not_allowed_def Let_def)


lemma run_route_gate:
  "request_content_type req = Some ct \<Longrightarrow> ct \<noteq> [] \<Longrightarrow> ct \<notin> set allowed_content_types \<Longrightarrow>
   run_route self rt req =
     [Send (client req)
        \<lparr>status_code = 415, content_type = ''text/plain'',
         body = ''Unsupported Media Type: '' @ ct,
         headers = [(''X-Error-Detail'', ''Content-Type '' @ ct @ '' is not supported'')]\<rparr>]"
  by (simp add: run_route_def)

lemma run_route_pass:
  "\<not> (truthy (request_content_type req) \<and> the (request_content_type req) \<notin> set allowed_content_types) \<Longrightarrow>
   run_route self rt req =
     Call RouteHandler #
       (case handler rt req of
          Inl e \<Rightarrow> on_exception self req e
        | Inr v \<Rightarrow>
            (case normalize v of
               Inl e \<Rightarrow> on_exception self req e
             | Inr resp \<Rightarrow> [Send (client req) resp]))"
  by (simp add: run_route_def Let_def)

lemma method_not_allowed_status:
  "sent_status_codes (method_not_allowed self req allowed) = [405]"
  by (simp add: method_not_allowed_def sent_status_codes_def status_code_clean)

lemma method_not_allowed_debug:
  "\<not> production self \<Longrightarrow>
   sent_header ''Allow'' (method_not_allowed self req allowed) = [Some (join '', '' (sort allowed))]"
  by (simp add: method_not_allowed_def sent_header_def)

lemma calls_method_not_allowed: "calls (method_not_allowed self req allowed) = []"
  by (simp add: method_not_allowed_def Let_def)

lemma calls_not_found: "RouteHandler \<notin> set (calls (not_found self req))"
  by (simp add: not_found_def split: option.splits sum.splits)

lemma not_found_with_handler:
  "not_found_handler self = Some h \<Longrightarrow>
   not_found self req =
     [Call NotFoundHandler,
      Send (client req)
        (case h req of
           Inr r \<Rightarrow> r
         | Inl handler_error \<Rightarrow>
             if production self then get_clean_error_response self 404 ''Not found'' None
             else \<lparr>status_code = 500, content_type = ''text/plain'',
                   body = ''404 handler failed: '' @ exc_msg handler_error,
                   headers = [(''X-Error-Detail'', exc_msg handler_error)]\<rparr>)]"
  by (simp add: not_found_def split: sum.splits)

lemma not_found_default_status:
  "not_found_handler self = None \<Longrightarrow> sent_status_codes (not_found self req) = [404]"
  by (simp add: not_found_def sent_status_codes_def status_code_clean)

lemma not_found_handler_returns:
  "not_found_handler self = Some h \<Longrightarrow> h req = Inr r \<Longrightarrow>
   not_found self req = [Call NotFoundHandler, Send (client req) r]"
  by (simp add: not_found_with_handler)

lemma not_found_handler_raises:
  "not_found_handler self = Some h \<Longrightarrow> h req = Inl handler_error \<Longrightarrow>
   sent_status_codes (not_found self req) = [if production self then 404 else 500]"
  by (simp add: not_found_with_handler sent_status_codes_def status_code_clean)

subsection \<open>Production mode\<close>

text \<open>In production mode the responses the error resolver and the unmatched branches build
  themselves carry no \<^verbatim>\<open>X-Error-Detail\<close> header.\<close>

lemma production_default_error_response:
  "production self \<Longrightarrow> headers (default_error_response self prefix msg) = []"
  by (simp add: default_error_response_def headers_clean)

lemma production_method_not_allowed:
  "production self \<Longrightarrow>
   sent_header ''X-Error-Detail'' (method_not_allowed self req allowed) = [None]"
  by (simp add: method_not_allowed_def sent_header_def headers_clean)

lemma production_not_found_default:
  "production self \<Longrightarrow> not_found_handler self = None \<Longrightarrow>
   sent_header ''X-Error-Detail'' (not_found self req) = [None]"
  by (simp add: not_found_def sent_header_def headers_clean)

lemma production_not_found_failing:
  "production self \<Longrightarrow> not_found_handler self = Some h \<Longrightarrow> h req = Inl handler_error \<Longrightarrow>
   sent_header ''X-Error-Detail'' (not_found self req) = [None]"
  by (simp add: not_found_with_handler sent_header_def headers_clean)

subsection \<open>The small application\<close>

lemma example_matched:
  "router_match (example_app flag rt) ''GET'' (base_path ''/items?page=2'') = (Some rt, [], [])"
  by (simp add: app_defs base_path_def split_once_def)

lemma example_not_allowed:
  "router_match (example_app flag rt) ''PUT'' (base_path ''/items?page=2'')
     = (None, [], [''POST'', ''GET''])"
  by (simp add: app_defs base_path_def split_once_def)

lemma example_unregistered:
  "router_match (set_not_found_handler (example_app flag rt) h) m (base_path ''/nothing'')
     = (None, [], [])"
  by (simp add: app_defs base_path_def split_once_def)

lemma example_unregistered_default:
  "router_match (example_app flag rt) m (base_path ''/nothing'') = (None, [], [])"
  by (simp add: app_defs base_path_def split_once_def)

lemma example_unregistered_handler:
  "not_found_handler (set_not_found_handler (example_app flag rt) h) = Some h"
  by (simp add: app_defs)

section \<open>Selection of the per-type handler\<close>

text \<open>
  Claim C1, as the code has it. The error resolver walks the registered handlers in
  registration order and the first one whose registered kind is the kind of the raised
  exception or one of its ancestors handles it: if the handler at position \<open>i\<close> matches and
  none before it does, it is the one called and the value it returns (or, if it raises, the
  default 500 response) is the result. Specificity plays no part.
\<close>

theorem handle_exception_first_registered:
  assumes "i < length (exception_handlers self)"
    and "isinstance e (fst (exception_handlers self ! i))"
    and "\<forall>j<i. \<not> isinstance e (fst (exception_handlers self ! j))"
  shows "handle_exception self req e =
           ([ExceptionHandler (fst (exception_handlers self ! i))],
            case snd (exception_handlers self ! i) req e of
              Inr v \<Rightarrow> v
            | Inl handler_error \<Rightarrow>
                PResponse (default_error_response self ''Exception handler failed: ''
                             (exc_msg handler_error)))"
  using exception_handler_loop_first [OF assms, of self req]
  by (simp add: handle_exception_def)

text \<open>The theorem where \<^verbatim>\<open>ValueError\<close> was registered before \<^verbatim>\<open>Exception\<close> and a
  \<^verbatim>\<open>RuntimeError\<close> is raised: the first handler does not match, the second does.\<close>

theorem handle_exception_first_registered_witness:
  "1 < length (exception_handlers specific_first_app)
   \<and> fst (exception_handlers specific_first_app ! 0) = ''ValueError''
   \<and> fst (exception_handlers specific_first_app ! 1) = ''Exception''
   \<and> \<not> isinstance runtime_error ''ValueError''
   \<and> isinstance runtime_error ''Exception''
   \<and> handle_exception specific_first_app example_request runtime_error
       = ([ExceptionHandler ''Exception''],
          PResponse (plain_response 500 ''something went wrong''))"
proof -
  have hs: "exception_handlers specific_first_app
              = [(''ValueError'', value_error_handler), (''Exception'', generic_handler)]"
    by (simp add: app_defs)
  have a: "1 < length (exception_handlers specific_first_app)"
    by (simp add: hs)
  have b: "isinstance runtime_error (fst (exception_handlers specific_first_app ! 1))"
    by (simp add: hs isinstance_def runtime_error_def)
  have c: "\<forall>j<1. \<not> isinstance runtime_error (fst (exception_handlers specific_first_app ! j))"
    by (simp add: hs isinstance_def runtime_error_def)
  show ?thesis
    using handle_exception_first_registered [OF a b c, of example_request]
    by (simp add: hs isinstance_def runtime_error_def generic_handler_def)
qed

text \<open>
  The selection is not that of the most specific kind, and it depends on the registration
  order. With \<^verbatim>\<open>Exception\<close> registered before \<^verbatim>\<open>ValueError\<close>, a raised
  \<^verbatim>\<open>ValueError\<close> goes to the handler of \<^verbatim>\<open>Exception\<close> (status 500), where the
  specification's lookup selects \<^verbatim>\<open>ValueError\<close>; with the same two handlers registered
  in the other order it goes to the handler of \<^verbatim>\<open>ValueError\<close> (status 400).
\<close>

theorem most_specific_counterexample:
  "fst (handle_exception generic_first_app example_request value_error)
     = [ExceptionHandler ''Exception'']
   \<and> map_option fst (spec_lookup_by_kind (exception_handlers generic_first_app)
        (exc_mro value_error)) = Some ''ValueError''
   \<and> fst (handle_exception specific_first_app example_request value_error)
     = [ExceptionHandler ''ValueError'']
   \<and> snd (handle_exception generic_first_app example_request value_error)
       = PResponse (plain_response 500 ''something went wrong'')
   \<and> snd (handle_exception specific_first_app example_request value_error)
       = PResponse (plain_response 400 ''Invalid value: This is a test error'')
   \<and> status_code (plain_response 500 ''something went wrong'') = 500
   \<and> status_code (plain_response 400 ''Invalid value: This is a test error'') = 400"
  by (simp add: handle_exception_def app_defs handler_defs isinstance_def)

section \<open>A per-type handler that raises\<close>

text \<open>
  Claim C2, as the code has it. If the per-type handler chosen for an exception itself
  raises, the resolver does not call the internal-error handler: it returns the default 500
  response at once (the clean JSON response in production mode, the text
  \<^verbatim>\<open>Exception handler failed: ...\<close> with the \<^verbatim>\<open>X-Error-Detail\<close> header otherwise).
\<close>

theorem failing_exception_handler_no_retry:
  assumes "i < length (exception_handlers self)"
    and "isinstance e (fst (exception_handlers self ! i))"
    and "\<forall>j<i. \<not> isinstance e (fst (exception_handlers self ! j))"
    and "snd (exception_handlers self ! i) req e = Inl handler_error"
  shows "handle_exception self req e =
           ([ExceptionHandler (fst (exception_handlers self ! i))],
            PResponse (default_error_response self ''Exception handler failed: ''
                         (exc_msg handler_error)))
       \<and> InternalErrorHandler \<notin> set (fst (handle_exception self req e))
       \<and> status_code (default_error_response self ''Exception handler failed: ''
                         (exc_msg handler_error)) = 500"
  using exception_handler_loop_first [OF assms(1) assms(2) assms(3), of self req] assms(4)
  by (simp add: handle_exception_def status_code_default_error_response)

text \<open>The theorem in debug mode, with a \<^verbatim>\<open>ValueError\<close> handler that raises and a custom
  internal-error handler set.\<close>

theorem failing_exception_handler_no_retry_witness:
  "0 < length (exception_handlers (failing_handler_app False))
   \<and> isinstance value_error (fst (exception_handlers (failing_handler_app False) ! 0))
   \<and> snd (exception_handlers (failing_handler_app False) ! 0) example_request value_error
       = Inl runtime_error
   \<and> handle_exception (failing_handler_app False) example_request value_error
       = ([ExceptionHandler ''ValueError''],
          PResponse
            \<lparr>status_code = 500, content_type = ''text/plain'',
             body = ''Exception handler failed: handler crashed'',
             headers = [(''X-Error-Detail'', ''handler crashed'')]\<rparr>)
   \<and> InternalErrorHandler \<notin> set (fst (handle_exception (failing_handler_app False) example_request value_error))"
proof -
  have hs: "exception_handlers (failing_handler_app False) = [(''ValueError'', failing_handler)]"
    by (simp add: app_defs)
  have a: "0 < length (exception_handlers (failing_handler_app False))"
    by (simp add: hs)
  have b: "isinstance value_error (fst (exception_handlers (failing_handler_app False) ! 0))"
    by (simp add: hs isinstance_def value_error_def)
  have c: "\<forall>j<0. \<not> isinstance value_error (fst (exception_handlers (failing_handler_app False) ! j))"
    by simp
  have d: "snd (exception_handlers (failing_handler_app False) ! 0) example_request value_error
             = Inl runtime_error"
    by (simp add: hs failing_handler_def)
  have p: "\<not> production (failing_handler_app False)"
    by (simp add: app_defs)
  show ?thesis
    using failing_exception_handler_no_retry [OF a b c d] a b d p
    by (simp add: hs default_error_response_def runtime_error_def)
qed

text \<open>
  There is no retry through the internal-error handler. In production mode, with a custom
  internal-error handler (which would answer 503) and a \<^verbatim>\<open>ValueError\<close> handler that
  raises, the internal-error handler is called zero times and the response is the default
  one.
\<close>

theorem retry_counterexample:
  "internal_error_handler (failing_handler_app True) = Some custom_500
   \<and> handle_exception (failing_handler_app True) example_request value_error
       = ([ExceptionHandler ''ValueError''],
          PResponse (JSONResponse [(''error'', JStr ''Internal server error'')] 500))
   \<and> count_list (fst (handle_exception (failing_handler_app True) example_request value_error))
        InternalErrorHandler = 0
   \<and> custom_500 example_request value_error
       = Inr (PResponse (plain_response 503 ''come back later''))"
  by (simp add: handle_exception_def app_defs handler_defs isinstance_def
      default_error_response_def get_clean_error_response_def)

section \<open>Method not allowed\<close>

text \<open>
  Claim C3, as the code has it. A request whose path is registered but whose method is not
  gets exactly one response, of status 405, in both modes; in debug mode the response
  carries an \<^verbatim>\<open>Allow\<close> header that lists the allowed methods sorted lexicographically and
  separated by comma and space.
\<close>

theorem method_not_allowed_response:
  assumes "router_match self m (base_path p) = (None, params, allowed)"
    and "allowed \<noteq> []"
  shows "map fst (sends (handle_request self cl m p b capsule)) = [cl]
       \<and> sent_status_codes (handle_request self cl m p b capsule) = [405]
       \<and> (\<not> production self \<longrightarrow>
            sent_header ''Allow'' (handle_request self cl m p b capsule)
              = [Some (join '', '' (sort allowed))])
       \<and> sorted (sort allowed) \<and> mset (sort allowed) = mset allowed"
  using assms
  by (simp add: handle_request_not_allowed [OF assms] method_not_allowed_status
      method_not_allowed_debug sends_method_not_allowed client_resolve)

text \<open>The theorem in debug mode for \<^verbatim>\<open>PUT /items?page=2\<close>, where the router allows
  \<^verbatim>\<open>POST\<close> and \<^verbatim>\<open>GET\<close>: the header is \<^verbatim>\<open>GET, POST\<close>.\<close>

theorem method_not_allowed_response_witness:
  "router_match (example_app False ok_route) ''PUT'' (base_path ''/items?page=2'')
     = (None, [], [''POST'', ''GET''])
   \<and> sent_status_codes (handle_request (example_app False ok_route) 7 ''PUT'' ''/items?page=2'' [] (Capsule None)) = [405]
   \<and> sent_header ''Allow'' (handle_request (example_app False ok_route) 7 ''PUT'' ''/items?page=2'' [] (Capsule None))
       = [Some ''GET, POST'']"
proof -
  have a: "router_match (example_app False ok_route) ''PUT'' (base_path ''/items?page=2'')
     = (None, [], [''POST'', ''GET''])"
    by (rule example_not_allowed)
  have b: "[''POST'', ''GET''] \<noteq> []" by simp
  have c: "\<not> production (example_app False ok_route)" by (simp add: app_defs)
  have d: "join '', '' (sort [''POST'', ''GET'']) = ''GET, POST''" by simp
  show ?thesis
    using method_not_allowed_response [OF a b, of 7 "[]" "Capsule None"] a c d
    by simp
qed

text \<open>
  In production mode the response has no \<^verbatim>\<open>Allow\<close> header: it is built by
  \<^verbatim>\<open>_get_clean_error_response\<close> from the status and the message alone, and the list of
  allowed methods, passed as detail, is dropped there.
\<close>

theorem allow_header_counterexample:
  "production (example_app True ok_route)
   \<and> router_match (example_app True ok_route) ''PUT'' (base_path ''/items?page=2'')
     = (None, [], [''POST'', ''GET''])
   \<and> sent_status_codes (handle_request (example_app True ok_route) 7 ''PUT'' ''/items?page=2'' [] (Capsule None)) = [405]
   \<and> sent_header ''Allow'' (handle_request (example_app True ok_route) 7 ''PUT'' ''/items?page=2'' [] (Capsule None))
       = [None]"
  by (simp add: handle_request_not_allowed [OF example_not_allowed] method_not_allowed_status
      example_not_allowed)
    (simp add: method_not_allowed_def sent_header_def headers_clean app_defs)

section \<open>The not-found handler\<close>

text \<open>
  Claim C4, as the code has it. For a request that matches no route and no allowed method,
  a registered not-found handler is called and the response it returns is sent. If it
  raises, production mode sends the clean JSON response of status 404; debug mode sends a
  text response of status 500, \<^verbatim>\<open>404 handler failed: ...\<close>, with the
  \<^verbatim>\<open>X-Error-Detail\<close> header.
\<close>

theorem not_found_handler_response:
  assumes "router_match self m (base_path p) = (None, params, [])"
    and "not_found_handler self = Some h"
  shows "(h (fst (resolve self cl m p b capsule)) = Inr r \<longrightarrow>
            handle_request self cl m p b capsule = [Call NotFoundHandler, Send cl r])
       \<and> (h (fst (resolve self cl m p b capsule)) = Inl handler_error \<and> production self \<longrightarrow>
            handle_request self cl m p b capsule
              = [Call NotFoundHandler, Send cl (JSONResponse [(''error'', JStr ''Not found'')] 404)])
       \<and> (h (fst (resolve self cl m p b capsule)) = Inl handler_error \<and> \<not> production self \<longrightarrow>
            handle_request self cl m p b capsule
              = [Call NotFoundHandler,
                 Send cl \<lparr>status_code = 500, content_type = ''text/plain'',
                          body = ''404 handler failed: '' @ exc_msg handler_error,
                          headers = [(''X-Error-Detail'', exc_msg handler_error)]\<rparr>])"
  by (simp add: handle_request_not_found [OF assms(1)] not_found_with_handler [OF assms(2)]
      client_resolve clean_error_in_production)

text \<open>The theorem for \<^verbatim>\<open>GET /nothing\<close>: a handler that answers, and a handler that
  raises in production and in debug mode.\<close>

theorem not_found_handler_response_witness:
  "custom_404 (fst (resolve (set_not_found_handler (example_app False ok_route) custom_404) 7 ''GET'' ''/nothing'' [] (Capsule None)))
     = Inr (plain_response 404 ''nothing at /nothing'')
   \<and> handle_request (set_not_found_handler (example_app False ok_route) custom_404) 7 ''GET'' ''/nothing'' [] (Capsule None)
     = [Call NotFoundHandler, Send 7 (plain_response 404 ''nothing at /nothing'')]
   \<and> production (set_not_found_handler (example_app True ok_route) failing_404)
   \<and> handle_request (set_not_found_handler (example_app True ok_route) failing_404) 7 ''GET'' ''/nothing'' [] (Capsule None)
     = [Call NotFoundHandler, Send 7 (JSONResponse [(''error'', JStr ''Not found'')] 404)]
   \<and> \<not> production (set_not_found_handler (example_app False ok_route) failing_404)
   \<and> handle_request (set_not_found_handler (example_app False ok_route) failing_404) 7 ''GET'' ''/nothing'' [] (Capsule None)
     = [Call NotFoundHandler,
        Send 7 \<lparr>status_code = 500, content_type = ''text/plain'',
                body = ''404 handler failed: handler crashed'',
                headers = [(''X-Error-Detail'', ''handler crashed'')]\<rparr>]"
proof -
  have a: "custom_404 (fst (resolve (set_not_found_handler (example_app False ok_route) custom_404) 7 ''GET'' ''/nothing'' [] (Capsule None)))
     = Inr (plain_response 404 ''nothing at /nothing'')"
    by (simp add: custom_404_def resolve_def split: prod.splits)
  have b: "failing_404 req = Inl runtime_error" for req
    by (simp add: failing_404_def)
  have c: "production (set_not_found_handler (example_app True ok_route) failing_404)"
    by (simp add: app_defs)
  have d: "\<not> production (set_not_found_handler (example_app False ok_route) failing_404)"
    by (simp add: app_defs)
  have e: "exc_msg runtime_error = ''handler crashed''"
    by (simp add: runtime_error_def)
  show ?thesis
    using a c d
      not_found_handler_response [where self = "set_not_found_handler (example_app False ok_route) custom_404"
        and h = custom_404 and m = "''GET''" and p = "''/nothing''" and cl = 7 and b = "[]"
        and capsule = "Capsule None" and r = "plain_response 404 ''nothing at /nothing''",
        OF example_unregistered example_unregistered_handler]
      not_found_handler_response [where self = "set_not_found_handler (example_app True ok_route) failing_404"
        and h = failing_404 and m = "''GET''" and p = "''/nothing''" and cl = 7 and b = "[]"
        and capsule = "Capsule None" and handler_error = runtime_error,
        OF example_unregistered example_unregistered_handler]
      not_found_handler_response [where self = "set_not_found_handler (example_app False ok_route) failing_404"
        and h = failing_404 and m = "''GET''" and p = "''/nothing''" and cl = 7 and b = "[]"
        and capsule = "Capsule None" and handler_error = runtime_error,
        OF example_unregistered example_unregistered_handler]
    by (simp add: b e)
qed

text \<open>In debug mode the response after a failing not-found handler has status 500, not
  404.\<close>

theorem failing_not_found_handler_counterexample:
  "\<not> production (set_not_found_handler (example_app False ok_route) failing_404)
   \<and> not_found_handler (set_not_found_handler (example_app False ok_route) failing_404) = Some failing_404
   \<and> failing_404 (fst (resolve (set_not_found_handler (example_app False ok_route) failing_404) 7 ''GET'' ''/nothing'' [] (Capsule None)))
       = Inl runtime_error
   \<and> sent_status_codes (handle_request (set_not_found_handler (example_app False ok_route) failing_404) 7 ''GET'' ''/nothing'' [] (Capsule None))
       = [500]"
  by (simp add: handle_request_not_found [OF example_unregistered]
      not_found_with_handler [OF example_unregistered_handler] sent_status_codes_def
      failing_404_def)
    (simp add: app_defs)

section \<open>A handler that returns nothing\<close>

text \<open>
  Claim C5, as the code has it. For a matched request that passes the content type gate and
  whose handler returns \<^verbatim>\<open>None\<close>, the dispatcher raises the \<^verbatim>\<open>TypeError\<close> for an
  unsupported return type into the error resolver and sends what the resolver returns; with
  no exception handler and no internal-error handler registered that is the default
  response, of status 500.
\<close>

theorem none_return_is_unsupported:
  assumes "router_match self m (base_path p) = (Some rt, params, allowed)"
    and "\<not> (truthy (capsule_content_type capsule)
            \<and> the (capsule_content_type capsule) \<notin> set allowed_content_types)"
    and "handler rt (fst (resolve self cl m p b capsule)) = Inr PNone"
  shows "handle_request self cl m p b capsule
           = Call RouteHandler #
             map Call (fst (handle_exception self (fst (resolve self cl m p b capsule))
                              (unsupported_type_error PNone)))
             @ send_value cl (snd (handle_exception self (fst (resolve self cl m p b capsule))
                                    (unsupported_type_error PNone)))
       \<and> (exception_handlers self = [] \<and> internal_error_handler self = None \<longrightarrow>
            sent_status_codes (handle_request self cl m p b capsule) = [500])"
proof -
  let ?req = "fst (resolve self cl m p b capsule)"
  have gate: "\<not> (truthy (request_content_type ?req)
                 \<and> the (request_content_type ?req) \<notin> set allowed_content_types)"
    using assms(2) by (simp add: content_type_resolve)
  have run: "handle_request self cl m p b capsule
               = Call RouteHandler # on_exception self ?req (unsupported_type_error PNone)"
    using assms(3)
    by (simp add: handle_request_matched [OF assms(1)] run_route_pass [OF gate])
  show ?thesis
    by (simp add: run on_exception_def client_resolve sent_status_codes_def sends_append
        sends_map_Call handle_exception_unregistered status_code_default_error_response
        split: prod.splits)
qed

text \<open>The theorem in debug mode for \<^verbatim>\<open>GET /items?page=2\<close> and a handler that returns
  \<^verbatim>\<open>None\<close>.\<close>

theorem none_return_is_unsupported_witness:
  "router_match (example_app False none_route) ''GET'' (base_path ''/items?page=2'')
     = (Some none_route, [], [])
   \<and> handler none_route (fst (resolve (example_app False none_route) 7 ''GET'' ''/items?page=2'' [] (Capsule None)))
       = Inr PNone
   \<and> exception_handlers (example_app False none_route) = []
   \<and> internal_error_handler (example_app False none_route) = None
   \<and> sent_status_codes (handle_request (example_app False none_route) 7 ''GET'' ''/items?page=2'' [] (Capsule None))
       = [500]"
proof -
  have a: "\<not> (truthy (capsule_content_type (Capsule None))
            \<and> the (capsule_content_type (Capsule None)) \<notin> set allowed_content_types)"
    by simp
  have b: "handler none_route (fst (resolve (example_app False none_route) 7 ''GET'' ''/items?page=2'' [] (Capsule None)))
       = Inr PNone"
    by (simp add: none_route_def)
  have c: "exception_handlers (example_app False none_route) = []
           \<and> internal_error_handler (example_app False none_route) = None"
    by (simp add: app_defs)
  show ?thesis
    using none_return_is_unsupported [OF example_matched a b, THEN conjunct2] b c
      example_matched [of False none_route]
    by simp
qed

text \<open>No empty response of status 204: in production mode the client gets the clean
  JSON response of status 500.\<close>

theorem none_return_counterexample:
  "handler none_route (fst (resolve (example_app True none_route) 7 ''GET'' ''/items?page=2'' [] (Capsule None)))
       = Inr PNone
   \<and> handle_request (example_app True none_route) 7 ''GET'' ''/items?page=2'' [] (Capsule None)
       = [Call RouteHandler, Send 7 (JSONResponse [(''error'', JStr ''Internal server error'')] 500)]
   \<and> sent_status_codes (handle_request (example_app True none_route) 7 ''GET'' ''/items?page=2'' [] (Capsule None))
       \<noteq> [204]"
proof -
  have run: "handle_request (example_app True none_route) 7 ''GET'' ''/items?page=2'' [] (Capsule None)
       = [Call RouteHandler, Send 7 (JSONResponse [(''error'', JStr ''Internal server error'')] 500)]"
    by (simp add: handle_request_matched [OF example_matched] run_route_def content_type_resolve
        client_resolve none_route_def on_exception_def)
      (simp add: handle_exception_def default_error_response_def clean_error_in_production app_defs)
  have st: "sent_status_codes
              [Call RouteHandler, Send 7 (JSONResponse [(''error'', JStr ''Internal server error'')] 500)]
            = [500]"
    by (simp add: sent_status_codes_def JSONResponse_def)
  have h: "handler none_route req = Inr PNone" for req
    by (simp add: none_route_def)
  show ?thesis
    unfolding run st by (simp add: h)
qed

section \<open>The content type gate\<close>

text \<open>
  Claim C6. For a matched request that carries a content type outside the allow-list, the
  dispatcher sends one response of status 415 and calls no handler, in particular not the
  route handler. A request with a content type of the allow-list, with no content type, or
  with an empty one passes the gate: the first thing the dispatcher does is call the route
  handler.
\<close>

theorem content_type_gate:
  assumes "router_match self m (base_path p) = (Some rt, params, allowed)"
  shows "(ct \<noteq> [] \<and> ct \<notin> set allowed_content_types \<longrightarrow>
            sent_status_codes (handle_request self cl m p b (Capsule (Some ct))) = [415]
          \<and> calls (handle_request self cl m p b (Capsule (Some ct))) = [])
       \<and> (ct \<in> set allowed_content_types \<longrightarrow>
            take 1 (handle_request self cl m p b (Capsule (Some ct))) = [Call RouteHandler])
       \<and> take 1 (handle_request self cl m p b (Capsule None)) = [Call RouteHandler]
       \<and> take 1 (handle_request self cl m p b (Capsule (Some []))) = [Call RouteHandler]"
  by (simp add: handle_request_matched [OF assms] run_route_def content_type_resolve
      sent_status_codes_def Let_def)

text \<open>The theorem for \<^verbatim>\<open>GET /items?page=2\<close> with the content types
  \<^verbatim>\<open>application/xml\<close>, \<^verbatim>\<open>text/plain\<close> and none.\<close>

theorem content_type_gate_witness:
  "router_match (example_app True ok_route) ''GET'' (base_path ''/items?page=2'')
     = (Some ok_route, [], [])
   \<and> ''application/xml'' \<notin> set allowed_content_types
   \<and> sent_status_codes (handle_request (example_app True ok_route) 7 ''GET'' ''/items?page=2'' [] (Capsule (Some ''application/xml''))) = [415]
   \<and> calls (handle_request (example_app True ok_route) 7 ''GET'' ''/items?page=2'' [] (Capsule (Some ''application/xml''))) = []
   \<and> ''text/plain'' \<in> set allowed_content_types
   \<and> take 1 (handle_request (example_app True ok_route) 7 ''GET'' ''/items?page=2'' [] (Capsule (Some ''text/plain''))) = [Call RouteHandler]
   \<and> take 1 (handle_request (example_app True ok_route) 7 ''GET'' ''/items?page=2'' [] (Capsule None)) = [Call RouteHandler]"
proof -
  have a: "''application/xml'' \<noteq> [] \<and> ''application/xml'' \<notin> set allowed_content_types"
    by (simp add: allowed_content_types_def)
  have b: "''text/plain'' \<in> set allowed_content_types"
    by (simp add: allowed_content_types_def)
  show ?thesis
    using a b example_matched [of True ok_route]
      content_type_gate [OF example_matched, of "''application/xml''" True ok_route 7 "[]"]
      content_type_gate [OF example_matched, of "''text/plain''" True ok_route 7 "[]"]
    by simp
qed

section \<open>The detail header in production mode\<close>

text \<open>
  Claim C7 says that no response of the dispatcher carries the \<^verbatim>\<open>X-Error-Detail\<close> header
  in production mode. The response of the content type gate does: the gate builds it without
  looking at the production flag. Here the code is evaluated in production mode for
  \<^verbatim>\<open>POST /items\<close> with the content type \<^verbatim>\<open>application/xml\<close>.
\<close>

theorem detail_header_in_production:
  "production (example_app True ok_route)
   \<and> sent_status_codes (handle_request (example_app True ok_route) 7 ''POST'' ''/items'' ''<item/>'' (Capsule (Some ''application/xml''))) = [415]
   \<and> sent_header ''X-Error-Detail'' (handle_request (example_app True ok_route) 7 ''POST'' ''/items'' ''<item/>'' (Capsule (Some ''application/xml'')))
       = [Some ''Content-Type application/xml is not supported'']"
  by (simp add: handle_request_def resolve_def base_path_def app_defs run_route_def
      request_content_type_def allowed_content_types_def sent_status_codes_def sent_header_def)

section \<open>The gate and unmatched requests\<close>

text \<open>
  Claim C10. The content type gate applies only after a successful route match. Whatever
  content type an unmatched request carries, the response is that of the unmatched branch:
  of status 405 for an unallowed method and of status 404 for an unregistered path, the same
  response as for any other content type. Where the application registered a not-found
  handler, the unregistered path is answered through it (its response, or the fallback if it
  raises). The route handler is never called, so the gate before it is never reached.
\<close>

theorem unmatched_request_skips_gate:
  assumes "router_match self m (base_path p) = (None, params, allowed)"
  shows "(allowed \<noteq> [] \<longrightarrow> sent_status_codes (handle_request self cl m p b capsule) = [405])
       \<and> (allowed = [] \<and> not_found_handler self = None \<longrightarrow>
            sent_status_codes (handle_request self cl m p b capsule) = [404])
       \<and> (allowed = [] \<and> not_found_handler self = Some h
            \<and> h (fst (resolve self cl m p b capsule)) = Inr r \<longrightarrow>
            handle_request self cl m p b capsule = [Call NotFoundHandler, Send cl r])
       \<and> (allowed = [] \<and> not_found_handler self = Some h
            \<and> h (fst (resolve self cl m p b capsule)) = Inl handler_error \<longrightarrow>
            sent_status_codes (handle_request self cl m p b capsule)
              = [if production self then 404 else 500])
       \<and> RouteHandler \<notin> set (calls (handle_request self cl m p b capsule))
       \<and> (allowed \<noteq> [] \<or> not_found_handler self = None \<longrightarrow>
            handle_request self cl m p b capsule = handle_request self cl m p b capsule')"
proof -
  have eq: "fst (resolve self cl m p b capsule')
              = (fst (resolve self cl m p b capsule))\<lparr>request_capsule := capsule'\<rparr>"
    by (rule resolve_capsule)
  show ?thesis
  proof (cases "allowed = []")
    case False
    with assms show ?thesis
      by (simp add: handle_request_not_allowed method_not_allowed_status
          calls_method_not_allowed eq method_not_allowed_capsule)
  next
    case True
    with assms have nf: "handle_request self cl m p b c
                           = not_found self (fst (resolve self cl m p b c))" for c
      by (simp add: handle_request_not_found)
    show ?thesis
      unfolding nf using True
      by (simp add: not_found_default_status not_found_handler_returns
          not_found_handler_raises client_resolve calls_not_found eq not_found_default_capsule)
  qed
qed

text \<open>The theorem for requests with the content type \<^verbatim>\<open>application/xml\<close>:
  \<^verbatim>\<open>PUT /items?page=2\<close>, and \<^verbatim>\<open>GET /nothing\<close> with no not-found handler (both
  answered as the same request without a content type is), with one that answers and with
  one that raises.\<close>

theorem unmatched_request_skips_gate_witness:
  "''application/xml'' \<notin> set allowed_content_types
   \<and> router_match (example_app True ok_route) ''PUT'' (base_path ''/items?page=2'')
       = (None, [], [''POST'', ''GET''])
   \<and> sent_status_codes (handle_request (example_app True ok_route) 7 ''PUT'' ''/items?page=2'' [] (Capsule (Some ''application/xml''))) = [405]
   \<and> handle_request (example_app True ok_route) 7 ''PUT'' ''/items?page=2'' [] (Capsule (Some ''application/xml''))
       = handle_request (example_app True ok_route) 7 ''PUT'' ''/items?page=2'' [] (Capsule None)
   \<and> router_match (example_app True ok_route) ''GET'' (base_path ''/nothing'') = (None, [], [])
   \<and> not_found_handler (example_app True ok_route) = None
   \<and> sent_status_codes (handle_request (example_app True ok_route) 7 ''GET'' ''/nothing'' [] (Capsule (Some ''application/xml''))) = [404]
   \<and> handle_request (example_app True ok_route) 7 ''GET'' ''/nothing'' [] (Capsule (Some ''application/xml''))
       = handle_request (example_app True ok_route) 7 ''GET'' ''/nothing'' [] (Capsule None)
   \<and> not_found_handler (set_not_found_handler (example_app True ok_route) custom_404) = Some custom_404
   \<and> handle_request (set_not_found_handler (example_app True ok_route) custom_404) 7 ''GET'' ''/nothing'' [] (Capsule (Some ''application/xml''))
       = [Call NotFoundHandler, Send 7 (plain_response 404 ''nothing at /nothing'')]
   \<and> not_found_handler (set_not_found_handler (example_app False ok_route) failing_404) = Some failing_404
   \<and> sent_status_codes (handle_request (set_not_found_handler (example_app False ok_route) failing_404) 7 ''GET'' ''/nothing'' [] (Capsule (Some ''application/xml''))) = [500]"
proof -
  have a: "''application/xml'' \<notin> set allowed_content_types"
    by (simp add: allowed_content_types_def)
  have b: "not_found_handler (example_app True ok_route) = None"
    by (simp add: app_defs)
  have c: "custom_404 (fst (resolve (set_not_found_handler (example_app True ok_route) custom_404) 7 ''GET'' ''/nothing'' [] (Capsule (Some ''application/xml''))))
     = Inr (plain_response 404 ''nothing at /nothing'')"
    by (simp add: custom_404_def resolve_def split: prod.splits)
  have d: "failing_404 req = Inl runtime_error" for req
    by (simp add: failing_404_def)
  have e: "\<not> production (set_not_found_handler (example_app False ok_route) failing_404)"
    by (simp add: app_defs)
  note t1 = unmatched_request_skips_gate [where self = "example_app True ok_route" and m = "''PUT''"
        and p = "''/items?page=2''" and cl = 7 and b = "[]" and capsule' = "Capsule None"
        and capsule = "Capsule (Some ''application/xml'')", OF example_not_allowed]
  note t2 = unmatched_request_skips_gate [where self = "example_app True ok_route" and m = "''GET''"
        and p = "''/nothing''" and cl = 7 and b = "[]" and capsule' = "Capsule None"
        and capsule = "Capsule (Some ''application/xml'')", OF example_unregistered_default]
  note t3 = unmatched_request_skips_gate [where self = "set_not_found_handler (example_app True ok_route) custom_404"
        and m = "''GET''" and p = "''/nothing''" and cl = 7 and b = "[]" and h = custom_404
        and r = "plain_response 404 ''nothing at /nothing''"
        and capsule = "Capsule (Some ''application/xml'')", OF example_unregistered]
  note t4 = unmatched_request_skips_gate [where self = "set_not_found_handler (example_app False ok_route) failing_404"
        and m = "''GET''" and p = "''/nothing''" and cl = 7 and b = "[]" and h = failing_404
        and handler_error = runtime_error
        and capsule = "Capsule (Some ''application/xml'')", OF example_unregistered]
  have p1: "sent_status_codes (handle_request (example_app True ok_route) 7 ''PUT'' ''/items?page=2'' [] (Capsule (Some ''application/xml''))) = [405]"
    using t1 [THEN conjunct1] by simp
  have p1e: "handle_request (example_app True ok_route) 7 ''PUT'' ''/items?page=2'' [] (Capsule (Some ''application/xml''))
       = handle_request (example_app True ok_route) 7 ''PUT'' ''/items?page=2'' [] (Capsule None)"
    using t1 [THEN conjunct2, THEN conjunct2, THEN conjunct2, THEN conjunct2, THEN conjunct2]
    by simp
  have p2: "sent_status_codes (handle_request (example_app True ok_route) 7 ''GET'' ''/nothing'' [] (Capsule (Some ''application/xml''))) = [404]"
    using t2 [THEN conjunct2, THEN conjunct1] b by simp
  have p2e: "handle_request (example_app True ok_route) 7 ''GET'' ''/nothing'' [] (Capsule (Some ''application/xml''))
       = handle_request (example_app True ok_route) 7 ''GET'' ''/nothing'' [] (Capsule None)"
    using t2 [THEN conjunct2, THEN conjunct2, THEN conjunct2, THEN conjunct2, THEN conjunct2] b
    by simp
  have p3: "handle_request (set_not_found_handler (example_app True ok_route) custom_404) 7 ''GET'' ''/nothing'' [] (Capsule (Some ''application/xml''))
       = [Call NotFoundHandler, Send 7 (plain_response 404 ''nothing at /nothing'')]"
    using t3 [THEN conjunct2, THEN conjunct2, THEN conjunct1] c
      example_unregistered_handler [of True ok_route custom_404]
    by simp
  have p4: "sent_status_codes (handle_request (set_not_found_handler (example_app False ok_route) failing_404) 7 ''GET'' ''/nothing'' [] (Capsule (Some ''application/xml''))) = [500]"
    using t4 [THEN conjunct2, THEN conjunct2, THEN conjunct2, THEN conjunct1] e
      example_unregistered_handler [of False ok_route failing_404]
    by (simp add: d)
  show ?thesis
    by (intro conjI;
        rule a b p1 p1e p2 p2e p3 p4 example_not_allowed example_unregistered_default
          example_unregistered_handler)
qed

section \<open>One response per request\<close>




section \<open>The query string\<close>

text \<open>
  Claim C8. Route matching depends only on the part of the path before the first question
  mark: two requests whose paths are the same \<open>base\<close> (free of question marks) followed by
  a query string (nothing, or a question mark and any text) get the same route, the same
  allowed methods and the same path parameters, while each Request object keeps its own
  full path.
\<close>

theorem routing_ignores_query_string:
  assumes "CHR ''?'' \<notin> set base"
    and "q1 = [] \<or> hd q1 = CHR ''?''"
    and "q2 = [] \<or> hd q2 = CHR ''?''"
  shows "snd (resolve self cl m (base @ q1) b capsule) = snd (resolve self cl m (base @ q2) b capsule)
       \<and> path_params (fst (resolve self cl m (base @ q1) b capsule))
           = path_params (fst (resolve self cl m (base @ q2) b capsule))
       \<and> path (fst (resolve self cl m (base @ q1) b capsule)) = base @ q1
       \<and> path (fst (resolve self cl m (base @ q2) b capsule)) = base @ q2"
  using base_path_append [OF assms(1) assms(2)] base_path_append [OF assms(1) assms(3)]
  by (simp add: resolve_def split: prod.splits)

text \<open>The theorem at the paths \<^verbatim>\<open>/items?page=2\<close> and
  \<^verbatim>\<open>/items?sort=name&page=3\<close>: both resolve to the route of \<^verbatim>\<open>/items\<close>.\<close>

theorem routing_ignores_query_string_witness:
  "CHR ''?'' \<notin> set ''/items''
   \<and> snd (resolve (example_app False ok_route) 7 ''GET'' (''/items'' @ ''?page=2'') [] (Capsule None))
       = snd (resolve (example_app False ok_route) 7 ''GET'' (''/items'' @ ''?sort=name&page=3'') [] (Capsule None))
   \<and> path_params (fst (resolve (example_app False ok_route) 7 ''GET'' (''/items'' @ ''?page=2'') [] (Capsule None)))
       = path_params (fst (resolve (example_app False ok_route) 7 ''GET'' (''/items'' @ ''?sort=name&page=3'') [] (Capsule None)))
   \<and> path (fst (resolve (example_app False ok_route) 7 ''GET'' (''/items'' @ ''?page=2'') [] (Capsule None)))
       = ''/items?page=2''
   \<and> fst (snd (resolve (example_app False ok_route) 7 ''GET'' (''/items'' @ ''?page=2'') [] (Capsule None)))
       = Some ok_route"
proof -
  have h: "CHR ''?'' \<notin> set ''/items''" by simp
  have q1: "''?page=2'' = [] \<or> hd ''?page=2'' = CHR ''?''" by simp
  have q2: "''?sort=name&page=3'' = [] \<or> hd ''?sort=name&page=3'' = CHR ''?''" by simp
  have r: "fst (snd (resolve (example_app False ok_route) 7 ''GET'' (''/items'' @ ''?page=2'') [] (Capsule None)))
       = Some ok_route"
    by (simp add: resolve_def base_path_def split_once_def example_app_def example_router_def)
  show ?thesis
    using h r routing_ignores_query_string [OF h q1 q2, of "example_app False ok_route" 7 "''GET''" "[]" "Capsule None"]
    by simp
qed

end
